theory Spec2Isabelle
  imports Main
begin

section \<open>JavaScript values\<close>

text \<open>
  The component in \<^verbatim>\<open>frontend/pages/_app.js\<close> is untyped: its state variables hold whatever
  the server or the durable storage hands it.  Values are therefore modelled as one
  datatype.  Numbers are restricted to integers (note ids and the like); the properties
  below only ever compare a number for equality or test it against zero.
\<close>

datatype jsval =
    JUndefined
  | JNull
  | JBool bool
  | JNum int
  | JStr string
  | JArr "jsval list"
  | JObj "(string \<times> jsval) list"

text \<open>Exceptions, by constructor, each carrying its \<^verbatim>\<open>message\<close>.\<close>

datatype js_error = Error string | TypeError string | SyntaxError string

fun message :: "js_error \<Rightarrow> string" where
  "message (Error m) = m"
| "message (TypeError m) = m"
| "message (SyntaxError m) = m"

text \<open>Truthiness, as tested by \<^verbatim>\<open>&&\<close>, \<^verbatim>\<open>||\<close> and \<^verbatim>\<open>?:\<close>.\<close>

fun truthy :: "jsval \<Rightarrow> bool" where
  "truthy JUndefined = False"
| "truthy JNull = False"
| "truthy (JBool b) = b"
| "truthy (JNum n) = (n \<noteq> 0)"
| "truthy (JStr s) = (s \<noteq> [])"
| "truthy (JArr xs) = True"
| "truthy (JObj kvs) = True"

fun nullish :: "jsval \<Rightarrow> bool" where
  "nullish JUndefined = True"
| "nullish JNull = True"
| "nullish v = False"

text \<open>
  Reading a property \<^verbatim>\<open>v.p\<close>.  On \<^verbatim>\<open>null\<close> and \<^verbatim>\<open>undefined\<close> it throws a TypeError (the
  wording of the message is the one of V8).  On an object it is the own property or
  \<^verbatim>\<open>undefined\<close>; on any other primitive or an array it is \<^verbatim>\<open>undefined\<close>.  This is right for
  the property names the component reads (\<^verbatim>\<open>message\<close>, \<^verbatim>\<open>token\<close>, \<^verbatim>\<open>user\<close>, \<^verbatim>\<open>id\<close>, \<^verbatim>\<open>role\<close>,
  \<^verbatim>\<open>tenant_id\<close>), none of which is inherited from a prototype.
\<close>

definition cannot_read :: "string \<Rightarrow> string \<Rightarrow> string" where
  "cannot_read what p =
     ''Cannot read properties of '' @ what @ '' (reading '' @ [CHR 0x27] @ p @ [CHR 0x27] @ '')''"

fun get_prop :: "jsval \<Rightarrow> string \<Rightarrow> js_error + jsval" where
  "get_prop JUndefined p = Inl (TypeError (cannot_read ''undefined'' p))"
| "get_prop JNull p = Inl (TypeError (cannot_read ''null'' p))"
| "get_prop (JObj kvs) p = Inr (case map_of kvs p of None \<Rightarrow> JUndefined | Some v \<Rightarrow> v)"
| "get_prop v p = Inr JUndefined"

text \<open>
  Strict equality \<^verbatim>\<open>===\<close>.  Primitives are compared by value.  Arrays and objects are
  compared by reference; the model has no references and takes every compound value for
  an object of its own, so two of them are never strictly equal.  The definition is
  therefore the comparison of the code only where one operand is a primitive, as in
  \<^verbatim>\<open>user.role === 'Admin'\<close> and in \<^verbatim>\<open>note.id !== id\<close> for an id that is a number or a string;
  the properties below that rest on it say so.
\<close>

fun is_primitive :: "jsval \<Rightarrow> bool" where
  "is_primitive (JArr xs) = False"
| "is_primitive (JObj kvs) = False"
| "is_primitive v = True"

definition strict_eq :: "jsval \<Rightarrow> jsval \<Rightarrow> bool" where
  "strict_eq a b = (is_primitive a \<and> a = b)"

text \<open>
  String conversion, as template literals, \<^verbatim>\<open>new Error(v)\<close> and \<^verbatim>\<open>localStorage.setItem\<close>
  apply it.  A number is printed with all its decimal digits, which is the conversion of
  JavaScript on the integers a double holds exactly up to \<open>2 ^ 53\<close>; larger numbers
  JavaScript rounds, and from \<open>10 ^ 21\<close> on prints with an exponent, which the model does
  not follow.  No property below depends on the text of a number.
\<close>

fun nat_digits :: "nat \<Rightarrow> string" where
  "nat_digits n =
     (if n < 10 then [''0123456789'' ! n]
      else nat_digits (n div 10) @ [''0123456789'' ! (n mod 10)])"

declare nat_digits.simps [simp del]

definition int_digits :: "int \<Rightarrow> string" where
  "int_digits n = (if n < 0 then CHR ''-'' # nat_digits (nat (- n)) else nat_digits (nat n))"

fun join_comma :: "string list \<Rightarrow> string" where
  "join_comma [] = []"
| "join_comma [x] = x"
| "join_comma (x # y # ys) = x @ '','' @ join_comma (y # ys)"

fun ToString :: "jsval \<Rightarrow> string" where
  "ToString JUndefined = ''undefined''"
| "ToString JNull = ''null''"
| "ToString (JBool b) = (if b then ''true'' else ''false'')"
| "ToString (JNum n) = int_digits n"
| "ToString (JStr s) = s"
| "ToString (JArr xs) = join_comma (map (\<lambda>x. if nullish x then [] else ToString x) xs)"
| "ToString (JObj kvs) = ''[object Object]''"

section \<open>The runtime the component runs on\<close>

text \<open>
  \<^verbatim>\<open>JSON.parse\<close>, \<^verbatim>\<open>JSON.stringify\<close> and the environment variable belong to the browser and
  the build, not to the repository: they are parameters.  \<^verbatim>\<open>JSON_parse\<close> returns the parsed
  value or the SyntaxError it throws.
\<close>

record runtime =
  JSON_parse :: "string \<Rightarrow> js_error + jsval"
  JSON_stringify :: "jsval \<Rightarrow> string"
  NEXT_PUBLIC_BACKEND_URL :: "string option"

definition BACKEND_URL :: "runtime \<Rightarrow> string" where
  "BACKEND_URL rt =
     (case NEXT_PUBLIC_BACKEND_URL rt of
        None \<Rightarrow> ''http://localhost:3001''
      | Some u \<Rightarrow> if u = [] then ''http://localhost:3001'' else u)"

text \<open>
  A response, by what the component observes of it: \<^verbatim>\<open>response.ok\<close> (the status is in
  200..299) and what \<^verbatim>\<open>response.json()\<close> settles with (the parsed body, or the SyntaxError
  for a body that is not JSON).  \<^verbatim>\<open>fetch\<close> resolves with a response whatever its status,
  and rejects only when the request could not complete.
\<close>

record response =
  status :: nat
  json :: "js_error + jsval"

definition ok :: "response \<Rightarrow> bool" where
  "ok r = (200 \<le> status r \<and> status r \<le> 299)"

datatype fetch_outcome = Resolved response | Rejected js_error

record request =
  "method" :: string
  url :: string
  headers :: "(string \<times> string) list"
  body :: "jsval option"

section \<open>The state of the component\<close>

record note_form =
  title :: string
  content :: string

record login_form =
  email :: string
  password :: string

record app =
  token :: jsval
  user :: jsval
  "notes" :: jsval
  isNotesLoading :: bool
  error :: string
  formState :: note_form
  loginForm :: login_form
  localStorage :: "string \<rightharpoonup> string"

text \<open>The state of a freshly loaded page: the \<^verbatim>\<open>useState\<close> defaults over the storage found.\<close>

definition page_load :: "(string \<rightharpoonup> string) \<Rightarrow> app" where
  "page_load store =
     \<lparr> token = JNull, user = JNull, notes = JArr [], isNotesLoading = False, error = [],
       formState = \<lparr> title = [], content = [] \<rparr>,
       loginForm = \<lparr> email = [], password = [] \<rparr>,
       localStorage = store \<rparr>"

text \<open>
  An asynchronous handler runs to its \<^verbatim>\<open>await fetch(...)\<close>, where the state it has set so
  far is committed and the request is sent, and goes on with the outcome of the request.
  \<^verbatim>\<open>Reload\<close> is \<^verbatim>\<open>window.location.reload()\<close>.  A handler reads the state variables of the
  render it was created in; each handler is modelled run alone, from that state.
\<close>

datatype io =
    Return app
  | Await app request "fetch_outcome \<Rightarrow> io"
  | Reload app

section \<open>Utility functions\<close>

definition validateResponse :: "response \<Rightarrow> js_error + jsval" where
  "validateResponse r =
     (if ok r then json r
      else case json r of
        Inl e \<Rightarrow> Inl e
      | Inr err \<Rightarrow>
          (case get_prop err ''message'' of
             Inl e \<Rightarrow> Inl e
           | Inr m \<Rightarrow> Inl (Error (if truthy m then ToString m else ''Something went wrong''))))"

text \<open>\<^verbatim>\<open>const response = await fetch(...); const data = await validateResponse(response)\<close>\<close>

definition fetch_validated :: "fetch_outcome \<Rightarrow> js_error + jsval" where
  "fetch_validated r = (case r of Rejected e \<Rightarrow> Inl e | Resolved resp \<Rightarrow> validateResponse resp)"

definition getAuthHeaders :: "app \<Rightarrow> (string \<times> string) list" where
  "getAuthHeaders s =
     [(''Content-Type'', ''application/json''),
      (''Authorization'', ''Bearer '' @ ToString (token s))]"

section \<open>Auth logic\<close>

definition getItem :: "app \<Rightarrow> string \<Rightarrow> jsval" where
  "getItem s k = (case localStorage s k of None \<Rightarrow> JNull | Some v \<Rightarrow> JStr v)"

text \<open>
  The effect run once at start.  \<^verbatim>\<open>JSON.parse\<close> converts its argument to a string first, so
  a missing entry is parsed as the text \<^verbatim>\<open>null\<close>.  \<^verbatim>\<open>Inl\<close> is the exception leaving the effect.
\<close>

definition restore :: "runtime \<Rightarrow> app \<Rightarrow> js_error + app" where
  "restore rt s =
     (let storedToken = getItem s ''token'' in
      case JSON_parse rt (ToString (getItem s ''user'')) of
        Inl e \<Rightarrow> Inl e
      | Inr storedUser \<Rightarrow>
          if truthy storedToken \<and> truthy storedUser
          then Inr (s\<lparr> token := storedToken, user := storedUser \<rparr>)
          else Inr s)"

definition login_request :: "runtime \<Rightarrow> app \<Rightarrow> request" where
  "login_request rt s =
     \<lparr> method = ''POST'', url = BACKEND_URL rt @ ''/login'',
       headers = [(''Content-Type'', ''application/json'')],
       body = Some (JObj [(''email'', JStr (email (loginForm s))),
                          (''password'', JStr (password (loginForm s)))]) \<rparr>"

text \<open>
  \<^verbatim>\<open>JSON.stringify(undefined)\<close> is \<^verbatim>\<open>undefined\<close>, which \<^verbatim>\<open>setItem\<close> stores as the text
  \<^verbatim>\<open>undefined\<close>.
\<close>

definition stored_user_text :: "runtime \<Rightarrow> jsval \<Rightarrow> string" where
  "stored_user_text rt v = (if v = JUndefined then ''undefined'' else JSON_stringify rt v)"

definition handleLogin_resume :: "runtime \<Rightarrow> app \<Rightarrow> fetch_outcome \<Rightarrow> app" where
  "handleLogin_resume rt s r =
     (case fetch_validated r of
        Inl err \<Rightarrow> s\<lparr> error := message err \<rparr>
      | Inr data \<Rightarrow>
          (case get_prop data ''token'' of
             Inl err \<Rightarrow> s\<lparr> error := message err \<rparr>
           | Inr t \<Rightarrow>
               (case get_prop data ''user'' of
                  Inl err \<Rightarrow> s\<lparr> error := message err \<rparr>
                | Inr u \<Rightarrow>
                    s\<lparr> token := t, user := u,
                       localStorage := (localStorage s)
                         (''token'' \<mapsto> ToString t, ''user'' \<mapsto> stored_user_text rt u) \<rparr>)))"

definition handleLogin :: "runtime \<Rightarrow> app \<Rightarrow> io" where
  "handleLogin rt s =
     Await (s\<lparr> error := [] \<rparr>) (login_request rt s)
       (\<lambda>r. Return (handleLogin_resume rt (s\<lparr> error := [] \<rparr>) r))"

definition handleLogout :: "app \<Rightarrow> io" where
  "handleLogout s =
     Return (s\<lparr> token := JNull, user := JNull, notes := JArr [],
               localStorage := (localStorage s)(''token'' := None, ''user'' := None),
               error := [] \<rparr>)"

section \<open>Notes logic\<close>

definition notes_request :: "runtime \<Rightarrow> app \<Rightarrow> request" where
  "notes_request rt s =
     \<lparr> method = ''GET'', url = BACKEND_URL rt @ ''/notes'',
       headers = getAuthHeaders s, body = None \<rparr>"

definition fetchNotes_resume :: "app \<Rightarrow> fetch_outcome \<Rightarrow> app" where
  "fetchNotes_resume s r =
     (case fetch_validated r of
        Inr data \<Rightarrow> s\<lparr> notes := data, isNotesLoading := False \<rparr>
      | Inl err \<Rightarrow> s\<lparr> error := message err, isNotesLoading := False \<rparr>)"

definition fetchNotes :: "runtime \<Rightarrow> app \<Rightarrow> io" where
  "fetchNotes rt s =
     Await (s\<lparr> isNotesLoading := True, error := [] \<rparr>) (notes_request rt s)
       (\<lambda>r. Return (fetchNotes_resume (s\<lparr> isNotesLoading := True, error := [] \<rparr>) r))"


text \<open>
  The spread \<^verbatim>\<open>...notes\<close>: the elements of an array, the characters of a string, and a
  TypeError for a value that is not iterable.
\<close>

fun spread :: "jsval \<Rightarrow> js_error + jsval list" where
  "spread (JArr xs) = Inr xs"
| "spread (JStr cs) = Inr (map (\<lambda>c. JStr [c]) cs)"
| "spread v = Inl (TypeError ''notes is not iterable'')"

definition create_request :: "runtime \<Rightarrow> app \<Rightarrow> request" where
  "create_request rt s =
     \<lparr> method = ''POST'', url = BACKEND_URL rt @ ''/notes'',
       headers = getAuthHeaders s,
       body = Some (JObj [(''title'', JStr (title (formState s))),
                          (''content'', JStr (content (formState s)))]) \<rparr>"

definition handleCreateNote_resume :: "app \<Rightarrow> fetch_outcome \<Rightarrow> app" where
  "handleCreateNote_resume s r =
     (case fetch_validated r of
        Inl err \<Rightarrow> s\<lparr> error := message err \<rparr>
      | Inr data \<Rightarrow>
          (case spread (notes s) of
             Inl err \<Rightarrow> s\<lparr> error := message err \<rparr>
           | Inr old \<Rightarrow>
               s\<lparr> notes := JArr (data # old), formState := \<lparr> title = [], content = [] \<rparr> \<rparr>))"

definition handleCreateNote :: "runtime \<Rightarrow> app \<Rightarrow> io" where
  "handleCreateNote rt s =
     Await (s\<lparr> error := [] \<rparr>) (create_request rt s)
       (\<lambda>r. Return (handleCreateNote_resume (s\<lparr> error := [] \<rparr>) r))"

text \<open>
  \<^verbatim>\<open>notes.filter(note => note.id !== id)\<close>: the callback runs on the elements in order and
  throws on an element that is \<^verbatim>\<open>null\<close> or \<^verbatim>\<open>undefined\<close>; a value that is no array has no
  \<^verbatim>\<open>filter\<close> to call.
\<close>

fun filter_notes :: "jsval list \<Rightarrow> jsval \<Rightarrow> js_error + jsval list" where
  "filter_notes [] ident = Inr []"
| "filter_notes (note # rest) ident =
     (case get_prop note ''id'' of
        Inl e \<Rightarrow> Inl e
      | Inr i \<Rightarrow>
          (case filter_notes rest ident of
             Inl e \<Rightarrow> Inl e
           | Inr kept \<Rightarrow> Inr (if \<not> strict_eq i ident then note # kept else kept)))"

fun notes_filter :: "jsval \<Rightarrow> jsval \<Rightarrow> js_error + jsval" where
  "notes_filter (JArr xs) ident =
     (case filter_notes xs ident of Inl e \<Rightarrow> Inl e | Inr kept \<Rightarrow> Inr (JArr kept))"
| "notes_filter JNull ident = Inl (TypeError (cannot_read ''null'' ''filter''))"
| "notes_filter JUndefined ident = Inl (TypeError (cannot_read ''undefined'' ''filter''))"
| "notes_filter v ident = Inl (TypeError ''notes.filter is not a function'')"

definition delete_request :: "runtime \<Rightarrow> app \<Rightarrow> jsval \<Rightarrow> request" where
  "delete_request rt s ident =
     \<lparr> method = ''DELETE'', url = BACKEND_URL rt @ ''/notes/'' @ ToString ident,
       headers = getAuthHeaders s, body = None \<rparr>"

definition handleDeleteNote_resume :: "app \<Rightarrow> jsval \<Rightarrow> fetch_outcome \<Rightarrow> app" where
  "handleDeleteNote_resume s ident r =
     (case r of
        Rejected err \<Rightarrow> s\<lparr> error := message err \<rparr>
      | Resolved resp \<Rightarrow>
          (case notes_filter (notes s) ident of
             Inl err \<Rightarrow> s\<lparr> error := message err \<rparr>
           | Inr kept \<Rightarrow> s\<lparr> notes := kept \<rparr>))"

definition handleDeleteNote :: "runtime \<Rightarrow> app \<Rightarrow> jsval \<Rightarrow> io" where
  "handleDeleteNote rt s ident =
     Await (s\<lparr> error := [] \<rparr>) (delete_request rt s ident)
       (\<lambda>r. Return (handleDeleteNote_resume (s\<lparr> error := [] \<rparr>) ident r))"

definition upgrade_request :: "runtime \<Rightarrow> app \<Rightarrow> jsval \<Rightarrow> request" where
  "upgrade_request rt s slug =
     \<lparr> method = ''POST'', url = BACKEND_URL rt @ ''/tenants/'' @ ToString slug @ ''/upgrade'',
       headers = getAuthHeaders s, body = None \<rparr>"

definition handleUpgrade_resume :: "app \<Rightarrow> fetch_outcome \<Rightarrow> io" where
  "handleUpgrade_resume s r =
     (case r of
        Rejected err \<Rightarrow> Return (s\<lparr> error := message err \<rparr>)
      | Resolved resp \<Rightarrow> Reload s)"

definition handleUpgrade :: "runtime \<Rightarrow> app \<Rightarrow> jsval \<Rightarrow> io" where
  "handleUpgrade rt s slug =
     Await (s\<lparr> error := [] \<rparr>) (upgrade_request rt s slug)
       (handleUpgrade_resume (s\<lparr> error := [] \<rparr>))"

section \<open>View rendering: the header of the dashboard\<close>

text \<open>
  The \<^verbatim>\<open>header\<close> element of \<^verbatim>\<open>renderDashboard\<close>, which holds all that depends on the
  user: the children of the role label, the two plan badges and the upgrade button, which
  is present with the tenant its click upgrades.  Reading \<^verbatim>\<open>user.role\<close> throws when there
  is no user.  The note form and the list of notes below the header are not modelled.
\<close>

record dashboard_header =
  role_label :: "jsval \<times> jsval"
  pro_plan :: bool
  free_plan :: bool
  upgrade_button :: "jsval option"

definition renderDashboard_header :: "app \<Rightarrow> js_error + dashboard_header" where
  "renderDashboard_header s =
     (case get_prop (user s) ''role'' of
        Inl e \<Rightarrow> Inl e
      | Inr role \<Rightarrow>
          (case get_prop (user s) ''tenant_id'' of
             Inl e \<Rightarrow> Inl e
           | Inr tenant \<Rightarrow>
               Inr \<lparr> role_label = (role, tenant),
                     pro_plan = strict_eq role (JStr ''Admin''),
                     free_plan = strict_eq role (JStr ''Member''),
                     upgrade_button =
                       (if strict_eq role (JStr ''Admin'') then Some tenant else None) \<rparr>))"

section \<open>Vocabulary of the properties\<close>

text \<open>What a handler has committed and sent while it waits, and how it goes on.\<close>

fun waiting :: "io \<Rightarrow> (app \<times> request) option" where
  "waiting (Await s q k) = Some (s, q)"
| "waiting (Return s) = None"
| "waiting (Reload s) = None"

fun resume :: "io \<Rightarrow> fetch_outcome \<Rightarrow> io" where
  "resume (Await s q k) r = k r"
| "resume (Return s) r = Return s"
| "resume (Reload s) r = Reload s"

text \<open>The id of a note, where the note has one to read.\<close>

definition note_id :: "jsval \<Rightarrow> jsval" where
  "note_id n = (case get_prop n ''id'' of Inl e \<Rightarrow> JUndefined | Inr i \<Rightarrow> i)"

text \<open>Token and user are set together or not at all.\<close>

definition session_inv :: "app \<Rightarrow> bool" where
  "session_inv s = (truthy (token s) = truthy (user s))"


text \<open>
  The steps of the component: the start effect, a reload, typing into a form, and for
  every handler the state it commits when it sends its request and the state it ends in,
  whatever the outcome of the request.
\<close>

inductive step :: "runtime \<Rightarrow> app \<Rightarrow> app \<Rightarrow> bool" for rt :: runtime where
  restored: "restore rt s = Inr s' \<Longrightarrow> step rt s s'"
| reloaded: "step rt s (page_load (localStorage s))"
| login_typed: "step rt s (s\<lparr> loginForm := f \<rparr>)"
| note_typed: "step rt s (s\<lparr> formState := g \<rparr>)"
| login_sent: "waiting (handleLogin rt s) = Some (s', q) \<Longrightarrow> step rt s s'"
| login_settled: "resume (handleLogin rt s) r = Return s' \<Longrightarrow> step rt s s'"
| logged_out: "handleLogout s = Return s' \<Longrightarrow> step rt s s'"
| fetch_sent: "waiting (fetchNotes rt s) = Some (s', q) \<Longrightarrow> step rt s s'"
| fetch_settled: "resume (fetchNotes rt s) r = Return s' \<Longrightarrow> step rt s s'"
| create_sent: "waiting (handleCreateNote rt s) = Some (s', q) \<Longrightarrow> step rt s s'"
| create_settled: "resume (handleCreateNote rt s) r = Return s' \<Longrightarrow> step rt s s'"
| delete_sent: "waiting (handleDeleteNote rt s ident) = Some (s', q) \<Longrightarrow> step rt s s'"
| delete_settled: "resume (handleDeleteNote rt s ident) r = Return s' \<Longrightarrow> step rt s s'"
| upgrade_sent: "waiting (handleUpgrade rt s slug) = Some (s', q) \<Longrightarrow> step rt s s'"
| upgrade_settled: "resume (handleUpgrade rt s slug) r = Return s' \<Longrightarrow> step rt s s'"

inductive reachable :: "runtime \<Rightarrow> app \<Rightarrow> bool" for rt :: runtime where
  loaded: "reachable rt (page_load store)"
| stepped: "reachable rt s \<Longrightarrow> step rt s s' \<Longrightarrow> reachable rt s'"

section \<open>Worked inputs\<close>

text \<open>
  A runtime for the worked examples.  Its \<^verbatim>\<open>JSON.parse\<close> is the standard one on the texts
  the examples store: \<^verbatim>\<open>null\<close>, \<^verbatim>\<open>{}\<close> and the text of \<open>sample_user\<close> are parsed, and
  \<^verbatim>\<open>undefined\<close>, which is no JSON text, is a SyntaxError.  No example stores another
  text.  Its \<^verbatim>\<open>JSON.stringify\<close> is the standard one on \<open>sample_user\<close>, the one value an
  example hands to it.
\<close>

definition quoted :: "string \<Rightarrow> string" where
  "quoted t = CHR 0x22 # t @ [CHR 0x22]"

definition sample_user :: jsval where
  "sample_user = JObj [(''role'', JStr ''Admin''), (''tenant_id'', JStr ''acme'')]"

definition sample_user_text :: string where
  "sample_user_text =
     ''{'' @ quoted ''role'' @ '':'' @ quoted ''Admin'' @ '','' @
     quoted ''tenant_id'' @ '':'' @ quoted ''acme'' @ ''}''"

definition sample_runtime :: runtime where
  "sample_runtime =
     \<lparr> JSON_parse =
         (\<lambda>t. if t = ''null'' then Inr JNull
              else if t = ''{}'' then Inr (JObj [])
              else if t = sample_user_text then Inr sample_user
              else Inl (SyntaxError ''Unexpected token in JSON'')),
       JSON_stringify =
         (\<lambda>v. if v = sample_user then sample_user_text
              else if v = JNull then ''null'' else ''{}''),
       NEXT_PUBLIC_BACKEND_URL = None \<rparr>"

definition sample_note :: "int \<Rightarrow> string \<Rightarrow> string \<Rightarrow> jsval" where
  "sample_note i t c =
     JObj [(''id'', JNum i), (''title'', JStr t), (''content'', JStr c),
           (''created_at'', JStr ''2024-01-01T00:00:00Z'')]"

definition sample_session :: app where
  "sample_session =
     (page_load [''token'' \<mapsto> ''t1'', ''user'' \<mapsto> sample_user_text])
       \<lparr> token := JStr ''t1'', user := sample_user,
         notes := JArr [sample_note 7 ''Groceries'' ''Milk, eggs'', sample_note 8 ''Todo'' ''Call''] \<rparr>"

definition api_failure :: "nat \<Rightarrow> string \<Rightarrow> response" where
  "api_failure code m = \<lparr> status = code, json = Inr (JObj [(''message'', JStr m)]) \<rparr>"


definition restored_sample :: app where
  "restored_sample =
     (page_load [''token'' \<mapsto> ''t1'', ''user'' \<mapsto> sample_user_text])
       \<lparr> token := JStr ''t1'', user := sample_user \<rparr>"

text \<open>
  Three answers of the server: a login with a token and a user, a login with a token and
  no user (and the state the component is in after it, on a fresh page), and a created
  note whose title the server has put in lower case.
\<close>

definition login_accepted :: response where
  "login_accepted =
     \<lparr> status = 200, json = Inr (JObj [(''token'', JStr ''t1''), (''user'', sample_user)]) \<rparr>"

definition token_only_login :: response where
  "token_only_login = \<lparr> status = 200, json = Inr (JObj [(''token'', JStr ''t1'')]) \<rparr>"

definition token_only_state :: app where
  "token_only_state =
     (page_load [''token'' \<mapsto> ''t1'', ''user'' \<mapsto> ''undefined''])
       \<lparr> token := JStr ''t1'', user := JUndefined \<rparr>"


section \<open>Facts about the utility functions\<close>

lemma validateResponse_message:
  "\<not> ok r \<Longrightarrow> json r = Inr b \<Longrightarrow> get_prop b ''message'' = Inr (JStr m) \<Longrightarrow> m \<noteq> [] \<Longrightarrow>
   validateResponse r = Inl (Error m)"
  by (simp add: validateResponse_def)

lemma validateResponse_fallback:
  "\<not> ok r \<Longrightarrow> json r = Inr b \<Longrightarrow> get_prop b ''message'' = Inr m \<Longrightarrow> \<not> truthy m \<Longrightarrow>
   validateResponse r = Inl (Error ''Something went wrong'')"
  by (simp add: validateResponse_def)



lemma strict_eq_primitive: "is_primitive b \<Longrightarrow> strict_eq a b = (a = b)"
  by (auto simp: strict_eq_def)

lemma filter_notes_eq:
  "\<forall>n\<in>set xs. \<not> nullish n \<Longrightarrow> is_primitive ident \<Longrightarrow>
   filter_notes xs ident = Inr [n \<leftarrow> xs. note_id n \<noteq> ident]"
proof (induction xs)
  case Nil
  show ?case by simp
next
  case (Cons n xs)
  from Cons.prems have "\<not> nullish n" by simp
  then obtain i where i: "get_prop n ''id'' = Inr i"
    by (cases n) auto
  with Cons show ?case
    by (simp add: note_id_def strict_eq_primitive)
qed




text \<open>
  What a login does with an answer it accepts: the \<^verbatim>\<open>token\<close> and the \<^verbatim>\<open>user\<close> of the body go
  into the state and into the storage as they are.
\<close>

lemma handleLogin_accepted:
  assumes "fetch_validated r = Inr data" and "get_prop data ''token'' = Inr t"
    and "get_prop data ''user'' = Inr u"
  shows "resume (handleLogin rt s) r
         = Return (s\<lparr> error := [], token := t, user := u,
                      localStorage := (localStorage s)
                        (''token'' \<mapsto> ToString t, ''user'' \<mapsto> stored_user_text rt u) \<rparr>)"
  using assms by (simp add: handleLogin_def handleLogin_resume_def)

lemma handleLogin_refused:
  assumes "resume (handleLogin rt s) r = Return s'"
    and "\<not> (\<exists>data t u. fetch_validated r = Inr data \<and> get_prop data ''token'' = Inr t
              \<and> get_prop data ''user'' = Inr u)"
  shows "token s' = token s \<and> user s' = user s"
  using assms
  by (auto simp: handleLogin_def handleLogin_resume_def split: sum.splits)

section \<open>Error surfacing of the authenticated operations\<close>

text \<open>
  \<^verbatim>\<open>fetchNotes\<close> and \<^verbatim>\<open>handleCreateNote\<close> pass the response through \<^verbatim>\<open>validateResponse\<close>:
  a response outside 200..299 whose body has a non-empty \<^verbatim>\<open>message\<close> string ends with
  that string in the error slot.
\<close>

lemma fetchNotes_surfaces_message:
  assumes "\<not> ok resp" and "json resp = Inr b" and "get_prop b ''message'' = Inr (JStr m)"
    and "m \<noteq> []"
  shows "resume (fetchNotes rt s) (Resolved resp)
         = Return (s\<lparr> isNotesLoading := False, error := m \<rparr>)"
  using validateResponse_message [OF assms]
  by (simp add: fetchNotes_def fetchNotes_resume_def fetch_validated_def)

lemma handleCreateNote_surfaces_message:
  assumes "\<not> ok resp" and "json resp = Inr b" and "get_prop b ''message'' = Inr (JStr m)"
    and "m \<noteq> []"
  shows "resume (handleCreateNote rt s) (Resolved resp) = Return (s\<lparr> error := m \<rparr>)"
  using validateResponse_message [OF assms]
  by (simp add: handleCreateNote_def handleCreateNote_resume_def fetch_validated_def)

text \<open>
  C1.  The claim: every authenticated operation (\<^verbatim>\<open>fetchNotes\<close>, \<^verbatim>\<open>createNote\<close>,
  \<^verbatim>\<open>deleteNote\<close>, \<^verbatim>\<open>upgradeTenant\<close>) that gets a response outside 200..299 with a
  \<^verbatim>\<open>message\<close> in its body ends with that message in the error slot.  The code of
  \<^verbatim>\<open>handleDeleteNote\<close> and \<^verbatim>\<open>handleUpgrade\<close> never looks at the response: deleting note 7
  against a 500 answer with the message \<^verbatim>\<open>Database unavailable\<close> removes the note from the
  list and leaves the error slot empty, and upgrading the tenant against a 403 answer
  with the message \<^verbatim>\<open>Forbidden\<close> reloads the page with the error slot empty.
\<close>

theorem delete_and_upgrade_ignore_status:
  "resume (handleDeleteNote sample_runtime sample_session (JNum 7))
     (Resolved (api_failure 500 ''Database unavailable''))
   = Return (sample_session\<lparr> error := [], notes := JArr [sample_note 8 ''Todo'' ''Call''] \<rparr>)
   \<and> resume (handleUpgrade sample_runtime sample_session (JStr ''acme''))
     (Resolved (api_failure 403 ''Forbidden''))
   = Reload (sample_session\<lparr> error := [] \<rparr>)"
  by (simp add: handleDeleteNote_def handleDeleteNote_resume_def handleUpgrade_def
      handleUpgrade_resume_def sample_session_def sample_note_def strict_eq_def)

section \<open>Deleting a note\<close>

text \<open>
  C2.  For a note list (an array whose elements are notes, none of them \<^verbatim>\<open>null\<close> or
  \<^verbatim>\<open>undefined\<close>) and an id (a primitive value): when the delete request completes with
  any response, whatever its status, the list becomes the notes whose id is not that id,
  in their order; when the request cannot complete, the list is unchanged and the error
  slot holds the message of the failure.
\<close>

theorem handleDeleteNote_removes:
  assumes "notes s = JArr xs" and "\<forall>n\<in>set xs. \<not> nullish n" and "is_primitive ident"
  shows "resume (handleDeleteNote rt s ident) (Resolved resp)
           = Return (s\<lparr> error := [], notes := JArr [n \<leftarrow> xs. note_id n \<noteq> ident] \<rparr>)
         \<and> resume (handleDeleteNote rt s ident) (Rejected e)
           = Return (s\<lparr> error := message e \<rparr>)"
  using assms
  by (simp add: handleDeleteNote_def handleDeleteNote_resume_def filter_notes_eq)

theorem handleDeleteNote_removes_witness:
  "notes sample_session = JArr [sample_note 7 ''Groceries'' ''Milk, eggs'', sample_note 8 ''Todo'' ''Call'']
   \<and> is_primitive (JNum 7)
   \<and> resume (handleDeleteNote sample_runtime sample_session (JNum 7))
        (Resolved (api_failure 404 ''Not found''))
      = Return (sample_session\<lparr> error := [], notes := JArr [sample_note 8 ''Todo'' ''Call''] \<rparr>)
   \<and> resume (handleDeleteNote sample_runtime sample_session (JNum 7))
        (Rejected (TypeError ''Failed to fetch''))
      = Return (sample_session\<lparr> error := ''Failed to fetch'' \<rparr>)"
proof -
  have n: "notes sample_session
           = JArr [sample_note 7 ''Groceries'' ''Milk, eggs'', sample_note 8 ''Todo'' ''Call'']"
    by (simp add: sample_session_def)
  have a: "\<forall>n\<in>set [sample_note 7 ''Groceries'' ''Milk, eggs'', sample_note 8 ''Todo'' ''Call''].
             \<not> nullish n"
    by (simp add: sample_note_def)
  have p: "is_primitive (JNum 7)" by simp
  show ?thesis
    using n handleDeleteNote_removes [OF n a p, of sample_runtime
        "api_failure 404 ''Not found''" "TypeError ''Failed to fetch''"]
    by (simp add: note_id_def sample_note_def)
qed

section \<open>Fetching the notes\<close>



section \<open>The session invariant\<close>

text \<open>
  C4, as stated, fails: a login the component accepts stores the \<^verbatim>\<open>token\<close> and the \<^verbatim>\<open>user\<close>
  of the body without looking at them.  On a fresh page, a login answered with status 200
  and the body \<^verbatim>\<open>{token: t1}\<close> ends with the token \<^verbatim>\<open>t1\<close> and the user \<^verbatim>\<open>undefined\<close>: a state the
  component reaches, with a token and no user.
\<close>

theorem login_token_without_user:
  "resume (handleLogin sample_runtime (page_load Map.empty)) (Resolved token_only_login)
     = Return token_only_state
   \<and> reachable sample_runtime token_only_state
   \<and> token token_only_state = JStr ''t1''
   \<and> user token_only_state = JUndefined
   \<and> \<not> session_inv token_only_state"
proof -
  have r: "resume (handleLogin sample_runtime (page_load Map.empty)) (Resolved token_only_login)
           = Return token_only_state"
    by (simp add: handleLogin_def handleLogin_resume_def fetch_validated_def
        validateResponse_def ok_def token_only_login_def token_only_state_def page_load_def
        stored_user_text_def)
  then have "step sample_runtime (page_load Map.empty) token_only_state"
    by (rule step.login_settled)
  then have "reachable sample_runtime token_only_state"
    by (blast intro: reachable.intros)
  with r show ?thesis
    by (simp add: token_only_state_def session_inv_def)
qed

text \<open>
  C4, amended.  Every step of the component taken from a state in which token and user
  are both set or both unset ends in such a state again, with one exception: a login
  whose answer the component accepts, with a body that carries one of \<^verbatim>\<open>token\<close> and \<^verbatim>\<open>user\<close>
  without the other; the state then holds exactly that token and that user.  So restore,
  logout, a failing login and every notes operation keep the invariant, and an accepted
  login keeps it exactly when the body carries the two together.
\<close>

theorem session_invariant_step:
  assumes "step rt s s'" and "session_inv s"
  shows "session_inv s'
    \<or> (\<exists>r data t u. resume (handleLogin rt s) r = Return s'
          \<and> fetch_validated r = Inr data
          \<and> get_prop data ''token'' = Inr t \<and> get_prop data ''user'' = Inr u
          \<and> token s' = t \<and> user s' = u \<and> truthy t \<noteq> truthy u)"
  using assms
proof (induction rule: step.induct)
  case (restored s s')
  then show ?case
    by (auto simp: restore_def session_inv_def Let_def split: sum.splits if_splits)
next
  case (reloaded s)
  show ?case by (simp add: session_inv_def page_load_def)
next
  case (login_settled s r s')
  show ?case
  proof (cases "\<exists>data t u. fetch_validated r = Inr data \<and> get_prop data ''token'' = Inr t
                  \<and> get_prop data ''user'' = Inr u")
    case False
    with login_settled have "token s' = token s \<and> user s' = user s"
      by (blast dest: handleLogin_refused)
    with login_settled show ?thesis by (simp add: session_inv_def)
  next
    case True
    then obtain data t u where d: "fetch_validated r = Inr data"
      "get_prop data ''token'' = Inr t" "get_prop data ''user'' = Inr u"
      by blast
    from handleLogin_accepted [OF d, of rt s] login_settled
    have tu: "token s' = t \<and> user s' = u" by auto
    show ?thesis
    proof (cases "truthy t = truthy u")
      case True
      with tu show ?thesis by (simp add: session_inv_def)
    next
      case False
      with login_settled d tu show ?thesis by blast
    qed
  qed
next
  case (fetch_settled s r s')
  then show ?case
    by (auto simp: fetchNotes_def fetchNotes_resume_def session_inv_def split: sum.splits)
next
  case (create_settled s r s')
  then show ?case
    by (auto simp: handleCreateNote_def handleCreateNote_resume_def session_inv_def
        split: sum.splits)
next
  case (delete_settled s ident r s')
  then show ?case
    by (auto simp: handleDeleteNote_def handleDeleteNote_resume_def session_inv_def
        split: sum.splits fetch_outcome.splits)
next
  case (upgrade_settled s slug r s')
  then show ?case
    by (auto simp: handleUpgrade_def handleUpgrade_resume_def session_inv_def
        split: fetch_outcome.splits)
qed (auto simp: session_inv_def handleLogin_def handleLogout_def fetchNotes_def
      handleCreateNote_def handleDeleteNote_def handleUpgrade_def)

theorem session_invariant_step_witness:
  "step sample_runtime (page_load Map.empty) restored_sample
   \<and> session_inv (page_load Map.empty)
   \<and> resume (handleLogin sample_runtime (page_load Map.empty)) (Resolved login_accepted)
     = Return restored_sample
   \<and> session_inv restored_sample
   \<and> step sample_runtime restored_sample (page_load Map.empty)"
proof -
  have e: "[''token'' \<mapsto> ''t1'', ''user'' \<mapsto> sample_user_text]
             (''token'' := None, ''user'' := None) = Map.empty"
    by (rule ext) simp
  have r: "resume (handleLogin sample_runtime (page_load Map.empty)) (Resolved login_accepted)
           = Return restored_sample"
    by (simp add: handleLogin_def handleLogin_resume_def fetch_validated_def
        validateResponse_def ok_def login_accepted_def restored_sample_def page_load_def
        stored_user_text_def sample_runtime_def sample_user_def)
  then have st: "step sample_runtime (page_load Map.empty) restored_sample"
    by (rule step.login_settled)
  have i: "session_inv (page_load Map.empty)"
    by (simp add: session_inv_def page_load_def)
  have "handleLogout restored_sample = Return (page_load Map.empty)"
    by (simp add: handleLogout_def restored_sample_def page_load_def e)
  then have out: "step sample_runtime restored_sample (page_load Map.empty)"
    by (rule step.logged_out)
  have j: "session_inv restored_sample"
    using session_invariant_step [OF st i]
    by (auto simp: session_inv_def restored_sample_def sample_user_def)
  from st i r j out show ?thesis by simp
qed

section \<open>Creating a note\<close>




section \<open>Logging out\<close>

text \<open>
  C6.  From every state \<^verbatim>\<open>handleLogout\<close> ends at once, sending no request, with token and
  user \<^verbatim>\<open>null\<close>, no notes, no \<^verbatim>\<open>token\<close> and no \<^verbatim>\<open>user\<close> entry in the storage and an empty
  error slot.  Restore after it, on the same page or on a fresh load over the storage it
  left, changes nothing: the session stays empty.  (\<^verbatim>\<open>JSON.parse\<close> is asked for the text
  \<^verbatim>\<open>null\<close> of the missing entry, which it parses to \<^verbatim>\<open>null\<close>.)
\<close>

theorem handleLogout_clears:
  "\<exists>s'. handleLogout s = Return s'
      \<and> waiting (handleLogout s) = None
      \<and> token s' = JNull \<and> user s' = JNull \<and> notes s' = JArr []
      \<and> localStorage s' ''token'' = None \<and> localStorage s' ''user'' = None
      \<and> error s' = []
      \<and> (JSON_parse rt ''null'' = Inr JNull \<longrightarrow>
           restore rt s' = Inr s'
           \<and> restore rt (page_load (localStorage s')) = Inr (page_load (localStorage s'))
           \<and> token (page_load (localStorage s')) = JNull
           \<and> user (page_load (localStorage s')) = JNull)"
  by (simp add: handleLogout_def restore_def getItem_def page_load_def)

theorem handleLogout_clears_witness:
  "JSON_parse sample_runtime ''null'' = Inr JNull
   \<and> handleLogout sample_session
     = Return (sample_session\<lparr> token := JNull, user := JNull, notes := JArr [],
                 localStorage := Map.empty \<rparr>)
   \<and> restore sample_runtime (page_load Map.empty) = Inr (page_load Map.empty)"
proof -
  have p: "JSON_parse sample_runtime ''null'' = Inr JNull"
    by (simp add: sample_runtime_def)
  have l: "localStorage sample_session = [''token'' \<mapsto> ''t1'', ''user'' \<mapsto> sample_user_text]"
    by (simp add: sample_session_def page_load_def)
  have e: "([''token'' \<mapsto> ''t1'', ''user'' \<mapsto> sample_user_text])(''token'' := None, ''user'' := None)
           = Map.empty"
    by (rule ext) simp
  from handleLogout_clears [of sample_session sample_runtime] p
  show ?thesis
    by (auto simp: handleLogout_def l e sample_session_def page_load_def)
qed

section \<open>A failing login\<close>



section \<open>Restoring the session\<close>

text \<open>
  C8, as stated, fails: restore tests the truthiness of what it read, not the presence
  of the entries.  With the token entry \<^verbatim>\<open>t1\<close> and the user entry \<^verbatim>\<open>null\<close> both entries are
  present and nothing is hydrated; the same with an empty token entry beside the user
  entry \<^verbatim>\<open>{}\<close>.  With the token entry \<^verbatim>\<open>t1\<close> and the user entry \<^verbatim>\<open>undefined\<close>, which is no
  JSON text, both entries are present and restore throws.
\<close>

theorem restore_present_not_hydrated:
  "[''token'' \<mapsto> ''t1'', ''user'' \<mapsto> ''null''] ''token'' = Some ''t1''
   \<and> [''token'' \<mapsto> ''t1'', ''user'' \<mapsto> ''null''] ''user'' = Some ''null''
   \<and> restore sample_runtime (page_load [''token'' \<mapsto> ''t1'', ''user'' \<mapsto> ''null''])
       = Inr (page_load [''token'' \<mapsto> ''t1'', ''user'' \<mapsto> ''null''])
   \<and> token (page_load [''token'' \<mapsto> ''t1'', ''user'' \<mapsto> ''null'']) = JNull
   \<and> [''token'' \<mapsto> [], ''user'' \<mapsto> ''{}''] ''token'' = Some []
   \<and> [''token'' \<mapsto> [], ''user'' \<mapsto> ''{}''] ''user'' = Some ''{}''
   \<and> restore sample_runtime (page_load [''token'' \<mapsto> [], ''user'' \<mapsto> ''{}''])
       = Inr (page_load [''token'' \<mapsto> [], ''user'' \<mapsto> ''{}''])
   \<and> restore sample_runtime (page_load [''token'' \<mapsto> ''t1'', ''user'' \<mapsto> ''undefined''])
       = Inl (SyntaxError ''Unexpected token in JSON'')"
  by (simp add: restore_def getItem_def page_load_def sample_runtime_def sample_user_text_def
      quoted_def)

text \<open>
  C8, amended.  When the user entry is missing or holds JSON text, restore on a fresh
  page hydrates the session exactly when the token entry is present and not empty and
  the user entry parses to a truthy value; the token is then the token entry and the
  user the parsed value.  In every other such case the page stays unauthenticated, token
  and user \<^verbatim>\<open>null\<close>.
\<close>

theorem restore_hydrates_iff:
  assumes "JSON_parse rt (case store ''user'' of None \<Rightarrow> ''null'' | Some t \<Rightarrow> t) = Inr u"
  shows "\<exists>s'. restore rt (page_load store) = Inr s'
      \<and> ((truthy (token s') \<and> truthy (user s'))
           = ((\<exists>t. store ''token'' = Some t \<and> t \<noteq> []) \<and> truthy u))
      \<and> (\<forall>t. store ''token'' = Some t \<and> t \<noteq> [] \<and> truthy u \<longrightarrow>
            s' = (page_load store)\<lparr> token := JStr t, user := u \<rparr>)
      \<and> (\<not> ((\<exists>t. store ''token'' = Some t \<and> t \<noteq> []) \<and> truthy u) \<longrightarrow>
            s' = page_load store \<and> token s' = JNull \<and> user s' = JNull)"
  using assms
  by (cases "store ''token''"; cases "store ''user''")
     (auto simp: restore_def getItem_def page_load_def)

theorem restore_hydrates_iff_witness:
  "JSON_parse sample_runtime
     (case [''token'' \<mapsto> ''t1'', ''user'' \<mapsto> sample_user_text] ''user'' of
        None \<Rightarrow> ''null'' | Some t \<Rightarrow> t) = Inr sample_user
   \<and> restore sample_runtime (page_load [''token'' \<mapsto> ''t1'', ''user'' \<mapsto> sample_user_text])
     = Inr restored_sample"
proof -
  have p: "JSON_parse sample_runtime
     (case [''token'' \<mapsto> ''t1'', ''user'' \<mapsto> sample_user_text] ''user'' of
        None \<Rightarrow> ''null'' | Some t \<Rightarrow> t) = Inr sample_user"
    by (simp add: sample_runtime_def sample_user_text_def quoted_def)
  have t: "truthy sample_user" by (simp add: sample_user_def)
  show ?thesis
    using p t restore_hydrates_iff
      [of sample_runtime "[''token'' \<mapsto> ''t1'', ''user'' \<mapsto> sample_user_text]" sample_user]
    by (auto simp: restored_sample_def)
qed

text \<open>
  C9.  Restore parses the user entry before it tests anything: when the entry holds a
  text that \<^verbatim>\<open>JSON.parse\<close> rejects, restore throws that SyntaxError, whatever the token
  entry, even a missing one.
\<close>

theorem restore_throws_on_invalid_user:
  assumes "localStorage s ''user'' = Some t" and "JSON_parse rt t = Inl e"
  shows "restore rt s = Inl e"
  using assms by (simp add: restore_def getItem_def)

theorem restore_throws_on_invalid_user_witness:
  "localStorage (page_load [''user'' \<mapsto> ''undefined'']) ''user'' = Some ''undefined''
   \<and> JSON_parse sample_runtime ''undefined'' = Inl (SyntaxError ''Unexpected token in JSON'')
   \<and> restore sample_runtime (page_load [''user'' \<mapsto> ''undefined''])
     = Inl (SyntaxError ''Unexpected token in JSON'')"
proof -
  have l: "localStorage (page_load [''user'' \<mapsto> ''undefined'']) ''user'' = Some ''undefined''"
    by (simp add: page_load_def)
  have p: "JSON_parse sample_runtime ''undefined'' = Inl (SyntaxError ''Unexpected token in JSON'')"
    by (simp add: sample_runtime_def sample_user_text_def quoted_def)
  show ?thesis
    using l p restore_throws_on_invalid_user [OF l p] by simp
qed

section \<open>Role gating in the dashboard\<close>

text \<open>
  C10.  For a session with a user, the header renders, and its badges and upgrade button
  are decided by the role alone: the Pro badge and the upgrade button are there exactly
  for the role \<^verbatim>\<open>Admin\<close>, the Free badge exactly for the role \<^verbatim>\<open>Member\<close>.  So a role other
  than \<^verbatim>\<open>Admin\<close> never has the upgrade button, whatever the tenant.
\<close>

theorem dashboard_header_by_role:
  assumes "\<not> nullish (user s)"
  shows "\<exists>h role. renderDashboard_header s = Inr h
      \<and> get_prop (user s) ''role'' = Inr role
      \<and> pro_plan h = (role = JStr ''Admin'')
      \<and> free_plan h = (role = JStr ''Member'')
      \<and> (upgrade_button h \<noteq> None) = (role = JStr ''Admin'')"
proof -
  from assms obtain role where r: "get_prop (user s) ''role'' = Inr role"
    by (cases "user s") auto
  from assms obtain tenant where t: "get_prop (user s) ''tenant_id'' = Inr tenant"
    by (cases "user s") auto
  show ?thesis
    using r t by (auto simp: renderDashboard_header_def strict_eq_def)
qed

theorem dashboard_header_by_role_witness:
  "\<not> nullish (user sample_session)
   \<and> renderDashboard_header sample_session
     = Inr \<lparr> role_label = (JStr ''Admin'', JStr ''acme''), pro_plan = True, free_plan = False,
             upgrade_button = Some (JStr ''acme'') \<rparr>"
proof -
  have n: "\<not> nullish (user sample_session)"
    by (simp add: sample_session_def sample_user_def)
  show ?thesis
    using n dashboard_header_by_role [OF n]
    by (auto simp: renderDashboard_header_def sample_session_def sample_user_def strict_eq_def)
qed

end
